theory Spec2Isabelle
  imports Complex_Main "HOL-Library.List_Lexorder" "HOL-Library.Char_ord"
    "HOL-Library.Multiset"
begin

section \<open>The store (database.py)\<close>

text \<open>
  The three SQLite tables of \<^verbatim>\<open>FootballDatabase.init_db\<close>, each as the list of its rows.
  Text columns are strings; a nullable column is an \<open>option\<close>; the REAL columns are
  modelled by exact reals. Timestamps are the ISO-8601 texts written by
  \<^verbatim>\<open>datetime.now().isoformat()\<close>; SQLite compares them as texts, byte by byte, which is
  the lexicographic order on \<open>string\<close>. Every reading of the clock is an argument of
  the operation that makes it.
\<close>

type_synonym timestamp = string

record cache_row =
  c_endpoint :: string
  c_params :: string
  c_data :: string
  c_timestamp :: timestamp

record prediction =
  fixture_id :: int
  league_id :: int
  home_team :: string
  away_team :: string
  predicted_outcome :: string
  actual_outcome :: "string option"
  probability :: real
  accuracy :: "real option"
  temperature :: "real option"
  wind_speed :: "real option"
  precipitation :: "real option"
  timestamp :: timestamp

record importance_row =
  fi_feature :: string
  fi_importance :: real
  fi_timestamp :: timestamp

record database =
  cache :: "cache_row list"
  predictions :: "prediction list"
  feature_importance :: "importance_row list"

definition init_db :: database where
  "init_db = \<lparr>cache = [], predictions = [], feature_importance = []\<rparr>"

text \<open>
  The exceptions of the Python runtime and of the libraries that the modelled code can
  meet. \<open>ModelNotReadyError\<close> and \<open>InsufficientDataError\<close> are the two error names of
  the specification; the source defines no exception class of its own and has no
  \<^verbatim>\<open>raise\<close> statement in the four modules modelled here.
\<close>

datatype py_error =
  TypeError | ValueError | AttributeError | KeyError | IndexError | NameError | ImportError
  | NotFittedError | ModelNotReadyError | InsufficientDataError

text \<open>
  \<^verbatim>\<open>ORDER BY timestamp DESC\<close>: the rows by descending timestamp. Rows with equal
  timestamps keep their table order here; SQLite promises no order among them, and no
  theorem below depends on it.
\<close>

definition order_by_desc :: "('r \<Rightarrow> timestamp) \<Rightarrow> 'r list \<Rightarrow> 'r list" where
  "order_by_desc key rows = rev (sort_key key (rev rows))"

subsection \<open>Predictions\<close>

text \<open>
  \<^verbatim>\<open>INSERT OR REPLACE\<close> on the primary key \<open>fixture_id\<close>: the rows with that key are
  deleted and the new row is inserted. The statement lists ten columns; the two it does
  not list, \<open>actual_outcome\<close> and \<open>accuracy\<close>, take their default, NULL.
  \<^verbatim>\<open>weather_data.get(k)\<close> is the lookup of the dictionary, None when the key is absent.
\<close>

definition store_prediction ::
  "database \<Rightarrow> timestamp \<Rightarrow> int \<Rightarrow> int \<Rightarrow> string \<Rightarrow> string \<Rightarrow> string \<Rightarrow> real
     \<Rightarrow> (string \<rightharpoonup> real) \<Rightarrow> database" where
  "store_prediction db now fid lid home away outcome prob weather_data =
     db\<lparr>predictions :=
       filter (\<lambda>r. fixture_id r \<noteq> fid) (predictions db) @
       [\<lparr>fixture_id = fid, league_id = lid, home_team = home, away_team = away,
         predicted_outcome = outcome, actual_outcome = None, probability = prob,
         accuracy = None, temperature = weather_data ''temp_c'',
         wind_speed = weather_data ''wind_kph'',
         precipitation = weather_data ''precip_mm'', timestamp = now\<rparr>]\<rparr>"

text \<open>
  \<^verbatim>\<open>fetchone()\<close> gives the first selected row or None; the \<^verbatim>\<open>UPDATE\<close> changes every row
  with the key.
\<close>

definition update_prediction_accuracy :: "database \<Rightarrow> int \<Rightarrow> string \<Rightarrow> database" where
  "update_prediction_accuracy db fid actual =
     (case find (\<lambda>r. fixture_id r = fid) (predictions db) of
        None \<Rightarrow> db
      | Some result \<Rightarrow>
          (let acc = (if predicted_outcome result = actual then 1 else 0)
           in db\<lparr>predictions :=
                map (\<lambda>r. if fixture_id r = fid
                          then r\<lparr>actual_outcome := Some actual, accuracy := Some acc\<rparr>
                          else r)
                    (predictions db)\<rparr>))"

text \<open>
  \<^verbatim>\<open>AVG(accuracy)\<close> is the mean of the non-NULL values of the column over the selected
  rows, NULL when there is none; the method then returns 0.
\<close>

definition sql_avg :: "real option list \<Rightarrow> real option" where
  "sql_avg col =
     (let vs = List.map_filter (\<lambda>v. v) col
      in if vs = [] then None else Some (sum_list vs / real (length vs)))"

definition graded :: "prediction \<Rightarrow> bool" where
  "graded r = (actual_outcome r \<noteq> None)"

text \<open>
  The parameter is \<open>None\<close> for Python's None. \<^verbatim>\<open>if league_id:\<close> tests truthiness: None
  and 0 are both false.
\<close>

definition get_prediction_accuracy :: "database \<Rightarrow> int option \<Rightarrow> real" where
  "get_prediction_accuracy db league =
     (let result =
        (if league \<noteq> None \<and> league \<noteq> Some 0
         then sql_avg (map accuracy
                (filter (\<lambda>r. Some (league_id r) = league \<and> graded r) (predictions db)))
         else sql_avg (map accuracy (filter graded (predictions db))))
      in case result of None \<Rightarrow> 0 | Some v \<Rightarrow> v)"

text \<open>
  \<^verbatim>\<open>def get_historical_data(self)\<close> has no parameter besides \<open>self\<close>. The model takes
  the keyword arguments of the call as a list of (name, value) pairs: a call with any
  keyword argument is Python's \<open>TypeError\<close> (unexpected keyword argument), raised before
  the body runs.
\<close>

definition get_historical_data ::
  "database \<Rightarrow> (string \<times> 'v) list \<Rightarrow> py_error + prediction list" where
  "get_historical_data db kwargs =
     (if kwargs \<noteq> [] then Inl TypeError
      else Inr (filter graded (predictions db)))"

subsection \<open>Cache\<close>

text \<open>
  \<^verbatim>\<open>json.dumps\<close> and \<^verbatim>\<open>json.loads\<close> belong to Python's library; they are parameters.
  \<^verbatim>\<open>'j\<close> is the type of the dictionaries passed as parameter set and as payload.
\<close>

definition cache_data ::
  "('j \<Rightarrow> string) \<Rightarrow> database \<Rightarrow> timestamp \<Rightarrow> string \<Rightarrow> 'j \<Rightarrow> 'j \<Rightarrow> database" where
  "cache_data json_dumps db now endpoint params data =
     db\<lparr>cache := cache db @
       [\<lparr>c_endpoint = endpoint, c_params = json_dumps params,
         c_data = json_dumps data, c_timestamp = now\<rparr>]\<rparr>"

definition cache_select :: "('j \<Rightarrow> string) \<Rightarrow> database \<Rightarrow> string \<Rightarrow> 'j \<Rightarrow> cache_row list" where
  "cache_select json_dumps db endpoint params =
     filter (\<lambda>r. c_endpoint r = endpoint \<and> c_params r = json_dumps params) (cache db)"

definition get_cached_data ::
  "('j \<Rightarrow> string) \<Rightarrow> (string \<Rightarrow> 'j) \<Rightarrow> database \<Rightarrow> string \<Rightarrow> 'j \<Rightarrow> 'j option" where
  "get_cached_data json_dumps json_loads db endpoint params =
     (case take 1 (order_by_desc c_timestamp (cache_select json_dumps db endpoint params)) of
        [] \<Rightarrow> None
      | result # _ \<Rightarrow> Some (json_loads (c_data result)))"

subsection \<open>Feature importance\<close>

text \<open>
  \<^verbatim>\<open>store_feature_importance\<close> inserts the rows of the frame one by one, each with its own
  reading of the clock: \<open>now i\<close> is the reading made for the row of index \<open>i\<close>.
\<close>

fun insert_importance ::
  "(nat \<Rightarrow> timestamp) \<Rightarrow> nat \<Rightarrow> (string \<times> real) list \<Rightarrow> importance_row list" where
  "insert_importance now i [] = []"
| "insert_importance now i ((f, v) # rows) =
     \<lparr>fi_feature = f, fi_importance = v, fi_timestamp = now i\<rparr>
       # insert_importance now (Suc i) rows"

definition store_feature_importance ::
  "database \<Rightarrow> (nat \<Rightarrow> timestamp) \<Rightarrow> (string \<times> real) list \<Rightarrow> database" where
  "store_feature_importance db now frame =
     db\<lparr>feature_importance := feature_importance db @ insert_importance now 0 frame\<rparr>"

text \<open>
  \<^verbatim>\<open>SELECT feature, importance FROM feature_importance ORDER BY timestamp DESC LIMIT 1\<close>.
\<close>

definition get_feature_importance :: "database \<Rightarrow> (string \<times> real) list" where
  "get_feature_importance db =
     map (\<lambda>r. (fi_feature r, fi_importance r))
       (take 1 (order_by_desc fi_timestamp (feature_importance db)))"

section \<open>The feature engine (feature_engineering.py)\<close>

text \<open>
  The module reads the global dictionary \<^verbatim>\<open>football_data\<close> loaded from
  \<^verbatim>\<open>football_data.json\<close>; here it is an argument. The dictionaries have the shape of the
  feed: a key the code reads with \<^verbatim>\<open>d[k]\<close> is a field, a key it reads with
  \<^verbatim>\<open>d.get(k, default)\<close> is an optional field, and the empty dictionary \<^verbatim>\<open>{}\<close> that the
  code uses as a default is \<open>None\<close>. The keys \<^verbatim>\<open>str(league_id)\<close>, \<^verbatim>\<open>str(team_id)\<close> and
  \<^verbatim>\<open>f"{home_team_id}-{away_team_id}"\<close> are modelled by the numbers they print.
\<close>

record standing =
  team_id :: int
  rank :: "int option"
  form :: "string option"
  goalsDiff :: "int option"

record goals_average =
  avg_total :: "real option"

record goals_side =
  average :: "goals_average option"

record goals_stats =
  goals_for :: "goals_side option"
  goals_against :: "goals_side option"

record clean_sheet_stats =
  cs_total :: "real option"

record team_statistics =
  clean_sheet :: "clean_sheet_stats option"
  goals :: "goals_stats option"

record injury =
  injury_team_id :: int

record h2h_match =
  fixture_date :: string
  teams_home_id :: int
  teams_away_id :: int
  goals_home :: int
  goals_away :: int

record football_data =
  fd_team_statistics :: "(int \<rightharpoonup> (int \<rightharpoonup> team_statistics)) option"
  fd_standings :: "(int \<rightharpoonup> standing list) option"
  fd_injuries :: "(int \<rightharpoonup> injury list) option"
  fd_h2h :: "(int \<times> int \<rightharpoonup> h2h_match list) option"

text \<open>
  \<^verbatim>\<open>get_team_data\<close>: the statistics and the standing of a team, each \<^verbatim>\<open>{}\<close> (here
  \<open>None\<close>) when not found. The standing is the first entry of the league's list with
  the team's id (\<^verbatim>\<open>next(..., {})\<close>).
\<close>

definition get_team_data ::
  "football_data \<Rightarrow> int \<Rightarrow> int \<Rightarrow> team_statistics option \<times> standing option" where
  "get_team_data fd tid lid =
     (let team_stats =
        (case fd_team_statistics fd of
           None \<Rightarrow> None
         | Some by_league \<Rightarrow>
             (case by_league lid of
                None \<Rightarrow> None
              | Some team_stats_data \<Rightarrow> team_stats_data tid));
          standings =
        (case fd_standings fd of
           None \<Rightarrow> None
         | Some by_league \<Rightarrow>
             (case by_league lid of
                None \<Rightarrow> None
              | Some standings_data \<Rightarrow> find (\<lambda>team. team_id team = tid) standings_data))
      in (team_stats, standings))"

definition calculate_form :: "string \<Rightarrow> real" where
  "calculate_form form_string =
     (if form_string = [] then 0
      else sum_list (map (\<lambda>result. if result = CHR ''W'' then 1
                                     else if result = CHR ''D'' then 1 / 2 else 0)
                         form_string)
           / real (length form_string))"

definition get_injuries :: "football_data \<Rightarrow> int \<Rightarrow> int \<Rightarrow> injury list" where
  "get_injuries fd tid lid =
     (case fd_injuries fd of
        None \<Rightarrow> []
      | Some by_league \<Rightarrow>
          (case by_league lid of
             None \<Rightarrow> []
           | Some response \<Rightarrow> filter (\<lambda>i. injury_team_id i = tid) response))"

definition get_h2h_data :: "football_data \<Rightarrow> int \<Rightarrow> int \<Rightarrow> h2h_match list" where
  "get_h2h_data fd home_team_id away_team_id =
     (case fd_h2h fd of
        None \<Rightarrow> []
      | Some by_key \<Rightarrow>
          (case by_key (home_team_id, away_team_id) of
             None \<Rightarrow> []
           | Some response \<Rightarrow> response))"

text \<open>
  \<^verbatim>\<open>sorted(h2h_data, key=..., reverse=True)\<close> is stable: matches of equal date keep their
  order. \<^verbatim>\<open>xs[:n]\<close> is Python's slice, which for a negative \<open>n\<close> drops the last \<open>-n\<close>
  elements.
\<close>

definition sorted_reverse :: "('a \<Rightarrow> 'k::linorder) \<Rightarrow> 'a list \<Rightarrow> 'a list" where
  "sorted_reverse key xs = rev (sort_key key (rev xs))"

definition slice_to :: "int \<Rightarrow> 'a list \<Rightarrow> 'a list" where
  "slice_to n xs = (if n < 0 then take (length xs - nat (- n)) xs else take (nat n) xs)"

definition match_points :: "int \<Rightarrow> h2h_match \<Rightarrow> int" where
  "match_points tid m =
     (if (teams_home_id m = tid \<and> goals_home m > goals_away m) \<or>
         (teams_away_id m = tid \<and> goals_away m > goals_home m)
      then 3
      else if goals_home m = goals_away m then 1 else 0)"

definition calculate_recent_performance :: "h2h_match list \<Rightarrow> int \<Rightarrow> int \<Rightarrow> real" where
  "calculate_recent_performance h2h_data tid num_matches =
     (if h2h_data = [] then 0
      else
        (let recent_matches = slice_to num_matches (sorted_reverse fixture_date h2h_data)
         in if recent_matches = [] then 0
            else
              (let performance = sum_list (map (match_points tid) recent_matches)
               in real_of_int performance / real (length recent_matches * 3))))"

record features =
  home_team_rank :: int
  away_team_rank :: int
  home_team_form :: real
  away_team_form :: real
  home_team_injuries :: nat
  away_team_injuries :: nat
  home_team_goal_diff :: int
  away_team_goal_diff :: int
  home_team_clean_sheets :: real
  away_team_clean_sheets :: real
  home_team_attack :: real
  away_team_attack :: real
  home_team_defense :: real
  away_team_defense :: real
  home_team_recent_performance :: real
  away_team_recent_performance :: real

text \<open>
  \<^verbatim>\<open>d.get(k, {})\<close> on a dictionary that may itself be the default \<^verbatim>\<open>{}\<close>, and the final
  \<^verbatim>\<open>d.get(k, 0)\<close>.
\<close>

definition dict_get :: "'d option \<Rightarrow> ('d \<Rightarrow> 'v option) \<Rightarrow> 'v option" where
  "dict_get d k = (case d of None \<Rightarrow> None | Some r \<Rightarrow> k r)"

definition get_or :: "'d option \<Rightarrow> ('d \<Rightarrow> 'v option) \<Rightarrow> 'v \<Rightarrow> 'v" where
  "get_or d k dflt = (case dict_get d k of None \<Rightarrow> dflt | Some v \<Rightarrow> v)"

definition feature_engineering :: "football_data \<Rightarrow> int \<Rightarrow> int \<Rightarrow> int \<Rightarrow> features" where
  "feature_engineering fd home_team_id away_team_id lid =
     (let (home_team_stats, home_standings) = get_team_data fd home_team_id lid;
          (away_team_stats, away_standings) = get_team_data fd away_team_id lid;
          home_injuries = get_injuries fd home_team_id lid;
          away_injuries = get_injuries fd away_team_id lid;
          h2h_data = get_h2h_data fd home_team_id away_team_id
      in \<lparr>home_team_rank = get_or home_standings rank 0,
          away_team_rank = get_or away_standings rank 0,
          home_team_form = calculate_form (get_or home_standings form []),
          away_team_form = calculate_form (get_or away_standings form []),
          home_team_injuries = length home_injuries,
          away_team_injuries = length away_injuries,
          home_team_goal_diff = get_or home_standings goalsDiff 0,
          away_team_goal_diff = get_or away_standings goalsDiff 0,
          home_team_clean_sheets = get_or (dict_get home_team_stats clean_sheet) cs_total 0,
          away_team_clean_sheets = get_or (dict_get away_team_stats clean_sheet) cs_total 0,
          home_team_attack =
            get_or (dict_get (dict_get (dict_get home_team_stats goals) goals_for) average)
              avg_total 0,
          away_team_attack =
            get_or (dict_get (dict_get (dict_get away_team_stats goals) goals_for) average)
              avg_total 0,
          home_team_defense =
            get_or (dict_get (dict_get (dict_get home_team_stats goals) goals_against) average)
              avg_total 0,
          away_team_defense =
            get_or (dict_get (dict_get (dict_get away_team_stats goals) goals_against) average)
              avg_total 0,
          home_team_recent_performance = calculate_recent_performance h2h_data home_team_id 5,
          away_team_recent_performance = calculate_recent_performance h2h_data away_team_id 5\<rparr>)"

section \<open>The prediction model (model.py)\<close>

text \<open>
  A data frame is the list of its rows and a row the list of its cells, \<open>None\<close> for a
  missing cell (NULL in the table, NaN in the frame). The classifier and the scaler are
  scikit-learn objects: the model keeps of them what the code reads. A
  \<^verbatim>\<open>StandardScaler()\<close> is unfitted until \<^verbatim>\<open>fit_transform\<close> has run on it, and its
  \<^verbatim>\<open>transform\<close> raises \<^verbatim>\<open>NotFittedError\<close> until then. A fitted scaler keeps the number
  of columns it was fitted on (\<^verbatim>\<open>n_features_in_\<close>) and its map on a row;
  \<^verbatim>\<open>transform\<close> checks its input before it applies the map and raises \<^verbatim>\<open>ValueError\<close>
  on a frame without rows or with rows of another width. \<^verbatim>\<open>predict_proba\<close> takes a frame
  and returns one list of class probabilities per row, or the exception it raises.
\<close>

type_synonym row = "real option list"
type_synonym frame = "row list"

text \<open>
  The attributes \<^verbatim>\<open>classes_\<close>, \<^verbatim>\<open>feature_names_in_\<close> and \<^verbatim>\<open>feature_importances_\<close> are written
  without their final underscore.
\<close>

record classifier =
  classes :: "string list"
  predict_proba :: "frame \<Rightarrow> py_error + real list list"
  feature_names_in :: "string list"
  feature_importances :: "real list"

datatype scaler = Unfitted | Fitted nat "row \<Rightarrow> row"

record prediction_model =
  model :: "classifier option"
  scaler :: scaler

record metrics =
  m_accuracy :: real
  m_precision :: real
  m_recall :: real
  m_f1 :: real
  m_roc_auc :: real

text \<open>
  The library calls of \<^verbatim>\<open>train\<close> and \<^verbatim>\<open>evaluate\<close>, as parameters: the split (fixed seed),
  the fit of the scaler, the grid search with its cross-validation, and the five metrics.
  Each returns its result or the exception it raises.
\<close>

record sklearn =
  train_test_split ::
    "frame \<Rightarrow> string list \<Rightarrow> py_error + (frame \<times> frame \<times> string list \<times> string list)"
  fit_scaler :: "frame \<Rightarrow> py_error + (nat \<times> (row \<Rightarrow> row))"
  grid_search_fit :: "frame \<Rightarrow> string list \<Rightarrow> py_error + classifier"
  score :: "classifier \<Rightarrow> frame \<Rightarrow> string list \<Rightarrow> py_error + metrics"

text \<open>
  The state after \<^verbatim>\<open>__init__\<close> when \<^verbatim>\<open>load_model\<close> finds no artifact, or fails to load
  one: \<^verbatim>\<open>self.model = None\<close> and the fresh \<^verbatim>\<open>StandardScaler()\<close>.
\<close>

definition untrained :: prediction_model where
  "untrained = \<lparr>model = None, scaler = Unfitted\<rparr>"

definition transform :: "scaler \<Rightarrow> frame \<Rightarrow> py_error + frame" where
  "transform sc X =
     (case sc of
        Unfitted \<Rightarrow> Inl NotFittedError
      | Fitted n tr \<Rightarrow>
          if X = [] then Inl ValueError
          else if list_all (\<lambda>r. length r = n) X then Inr (map tr X)
          else Inl ValueError)"

text \<open>
  \<^verbatim>\<open>train\<close> mutates \<^verbatim>\<open>self.scaler\<close> and \<^verbatim>\<open>self.model\<close> as it goes, so the model returns the
  state reached together with the exception, if any. The method has no check of its
  input: an empty table reaches \<^verbatim>\<open>train_test_split\<close>. Writing the artifact files
  (\<^verbatim>\<open>save_model\<close>) and the module's log lines are left out.
\<close>

definition train ::
  "sklearn \<Rightarrow> prediction_model \<Rightarrow> frame \<Rightarrow> string list \<Rightarrow> prediction_model \<times> py_error option" where
  "train sk pm X y =
     (case train_test_split sk X y of
        Inl e \<Rightarrow> (pm, Some e)
      | Inr (X_train, X_test, y_train, y_test) \<Rightarrow>
          (case fit_scaler sk X_train of
             Inl e \<Rightarrow> (pm, Some e)
           | Inr (n, tr) \<Rightarrow>
               (let pm1 = pm\<lparr>scaler := Fitted n tr\<rparr>
                in case transform (scaler pm1) X_train of
                     Inl e \<Rightarrow> (pm1, Some e)
                   | Inr X_train_scaled \<Rightarrow>
                       (case transform (scaler pm1) X_test of
                          Inl e \<Rightarrow> (pm1, Some e)
                        | Inr X_test_scaled \<Rightarrow>
                            (case grid_search_fit sk X_train_scaled y_train of
                               Inl e \<Rightarrow> (pm1, Some e)
                             | Inr best_estimator \<Rightarrow>
                                 (let pm2 = pm1\<lparr>model := Some best_estimator\<rparr>
                                  in case score sk best_estimator X_test_scaled y_test of
                                       Inl e \<Rightarrow> (pm2, Some e)
                                     | Inr m \<Rightarrow> (pm2, None)))))))"

text \<open>
  \<^verbatim>\<open>predict\<close> on the one-row frame of a fixture, given by its row.
  \<^verbatim>\<open>self.scaler.transform\<close> comes first, with its own exceptions; then
  \<^verbatim>\<open>self.model.predict_proba\<close>, an \<^verbatim>\<open>AttributeError\<close> when \<^verbatim>\<open>self.model\<close> is None; then
  the index \<^verbatim>\<open>[0]\<close>. \<^verbatim>\<open>np.argmax\<close> is the first index of the maximum and raises
  \<^verbatim>\<open>ValueError\<close> on an empty array.
\<close>

definition argmax :: "real list \<Rightarrow> nat" where
  "argmax ps = length (takeWhile (\<lambda>p. p \<noteq> fold max ps (hd ps)) ps)"

definition predict :: "prediction_model \<Rightarrow> row \<Rightarrow> py_error + (string \<times> real)" where
  "predict pm X =
     (case transform (scaler pm) [X] of
        Inl e \<Rightarrow> Inl e
      | Inr X_scaled \<Rightarrow>
          (case model pm of
             None \<Rightarrow> Inl AttributeError
           | Some clf \<Rightarrow>
               (case predict_proba clf X_scaled of
                  Inl e \<Rightarrow> Inl e
                | Inr [] \<Rightarrow> Inl IndexError
                | Inr (probabilities # rest) \<Rightarrow>
                    if probabilities = [] then Inl ValueError
                    else if argmax probabilities \<ge> length (classes clf) then Inl IndexError
                    else Inr (classes clf ! argmax probabilities,
                              fold max probabilities (hd probabilities)))))"

text \<open>
  \<^verbatim>\<open>PredictionModel.get_feature_importance\<close>: the frame of (feature, importance), by
  descending importance.
\<close>

definition model_get_feature_importance ::
  "prediction_model \<Rightarrow> py_error + (string \<times> real) list" where
  "model_get_feature_importance pm =
     (case model pm of
        None \<Rightarrow> Inl AttributeError
      | Some clf \<Rightarrow>
          if length (feature_names_in clf) \<noteq> length (feature_importances clf)
          then Inl ValueError
          else Inr (rev (sort_key snd (rev (zip (feature_names_in clf)
                                                 (feature_importances clf))))))"

definition evaluate ::
  "sklearn \<Rightarrow> prediction_model \<Rightarrow> frame \<Rightarrow> string list \<Rightarrow> py_error + metrics" where
  "evaluate sk pm X y =
     (case transform (scaler pm) X of
        Inl e \<Rightarrow> Inl e
      | Inr X_scaled \<Rightarrow>
          (case model pm of
             None \<Rightarrow> Inl AttributeError
           | Some clf \<Rightarrow> score sk clf X_scaled y))"

section \<open>The orchestrator (football_prediction_system.py)\<close>

text \<open>
  The system holds the store, the model and the pre-fetched data; the log is the list of
  the logger calls made, one constructor per call site. A step returns the state it
  reaches and the exception it raises, if any: what was written before an exception
  stays written.
\<close>

record fixture =
  fx_id :: int
  fx_league_id :: int
  fx_home_id :: int
  fx_home_name :: string
  fx_away_id :: int
  fx_away_name :: string

datatype log_entry =
  LogPrediction string string string real
  | LogProcessingLeague string
  | LogFailedFetch int
  | LogModelUpdated
  | LogNoHistorical
  | LogRecentPerformance metrics
  | LogNoRecent
  | LogCycleError py_error

text \<open>
  \<^verbatim>\<open>all_data.get('fixtures', {})\<close> and \<^verbatim>\<open>all_data.get('standings', {})\<close>: \<open>ad_fixtures\<close>
  is \<open>None\<close> for an absent or empty dictionary and otherwise its \<^verbatim>\<open>'response'\<close> list;
  \<open>ad_standings\<close> tells whether the standings dictionary is non-empty.
\<close>

record system =
  pdb :: database
  pmodel :: prediction_model
  logged :: "log_entry list"
  ad_fixtures :: "fixture list option"
  ad_standings :: bool

text \<open>
  What a cycle takes from outside: the library and the readings of the clock.
\<close>

record env =
  sk :: sklearn
  prediction_time :: "fixture \<Rightarrow> timestamp"
  importance_time :: "nat \<Rightarrow> timestamp"
  one_week_ago :: timestamp

definition TOP_LEAGUES :: "(int \<times> string) list" where
  "TOP_LEAGUES =
     [(39, ''English Premier League''), (140, ''La Liga''), (78, ''Bundesliga''),
      (61, ''Ligue 1''), (135, ''Serie A''), (94, ''Primeira Liga'')]"

definition info :: "log_entry \<Rightarrow> system \<Rightarrow> system" where
  "info entry s = s\<lparr>logged := logged s @ [entry]\<rparr>"

text \<open>
  A call of \<^verbatim>\<open>store_prediction\<close> as Python makes it: the method has seven parameters
  besides \<open>self\<close>, none with a default, and a call that leaves \<open>weather_data\<close> out is a
  \<open>TypeError\<close>.
\<close>

definition call_store_prediction ::
  "database \<Rightarrow> timestamp \<Rightarrow> int \<Rightarrow> int \<Rightarrow> string \<Rightarrow> string \<Rightarrow> string \<Rightarrow> real
     \<Rightarrow> (string \<rightharpoonup> real) option \<Rightarrow> py_error + database" where
  "call_store_prediction d now fid lid home away outcome prob weather_arg =
     (case weather_arg of
        None \<Rightarrow> Inl TypeError
      | Some weather_data \<Rightarrow>
          Inr (store_prediction d now fid lid home away outcome prob weather_data))"

text \<open>
  The names that \<^verbatim>\<open>feature_engineering.py\<close> binds at module level: its imports, the
  file handle and the data of its \<^verbatim>\<open>try\<close> block, and its seven functions.
  \<^verbatim>\<open>from m import n\<close> raises \<^verbatim>\<open>ImportError\<close> when the module binds no name \<open>n\<close>.
\<close>

definition feature_engineering_names :: "string list" where
  "feature_engineering_names =
     [''pd'', ''json'', ''datetime'', ''Dict'', ''List'', ''Tuple'', ''logging'',
      ''f'', ''football_data'',
      ''get_team_data'', ''calculate_form'', ''get_injuries'', ''get_h2h_data'',
      ''calculate_recent_performance'', ''feature_engineering'', ''main'']"

definition from_import :: "string list \<Rightarrow> string \<Rightarrow> py_error + unit" where
  "from_import names n = (if n \<in> set names then Inr () else Inl ImportError)"

text \<open>
  Line 9 of \<^verbatim>\<open>football_prediction_system.py\<close>,
  \<^verbatim>\<open>from feature_engineering import engineer_features\<close>: the only statement of the
  program that would bind the name \<^verbatim>\<open>engineer_features\<close>.
\<close>

definition import_engineer_features :: "py_error + unit" where
  "import_engineer_features = from_import feature_engineering_names ''engineer_features''"

text \<open>
  The call \<^verbatim>\<open>engineer_features(match_data)\<close> in \<^verbatim>\<open>process_fixture\<close>. No module of the
  repository defines a function of that name and the import of line 9 cannot bind it, so
  the name is unbound where it is called: the call raises \<^verbatim>\<open>NameError\<close> and returns no
  features.
\<close>

definition engineer_features :: "fixture \<Rightarrow> py_error + row" where
  "engineer_features match_data = Inl NameError"

text \<open>
  \<^verbatim>\<open>process_fixture\<close> has no \<^verbatim>\<open>try\<close>: an exception of any of its calls leaves the
  coroutine. The look-ups that assemble \<^verbatim>\<open>match_data\<close> from the pre-fetched data come
  before the call of \<^verbatim>\<open>engineer_features\<close> and are left out. The call of
  \<^verbatim>\<open>store_prediction\<close> passes six arguments.
\<close>

definition process_fixture :: "env \<Rightarrow> fixture \<Rightarrow> system \<Rightarrow> system \<times> py_error option" where
  "process_fixture ev fx s =
     (case engineer_features fx of
        Inl e \<Rightarrow> (s, Some e)
      | Inr feats \<Rightarrow>
          (case predict (pmodel s) feats of
             Inl e \<Rightarrow> (s, Some e)
           | Inr (predicted, prob) \<Rightarrow>
               (case call_store_prediction (pdb s) (prediction_time ev fx) (fx_id fx)
                       (fx_league_id fx) (fx_home_name fx) (fx_away_name fx) predicted prob None of
                  Inl e \<Rightarrow> (s, Some e)
                | Inr d \<Rightarrow>
                    (info (LogPrediction (fx_home_name fx) (fx_away_name fx) predicted prob)
                       (s\<lparr>pdb := d\<rparr>), None))))"

text \<open>
  \<^verbatim>\<open>await asyncio.gather(*tasks)\<close>: no task is cancelled when another raises, and the
  first exception raised is the one the awaiting coroutine gets. The tasks of this
  program never wait on anything, so each runs to its end once started; the model runs
  them in the order of the list.
\<close>

fun gather :: "('s \<Rightarrow> 's \<times> py_error option) list \<Rightarrow> 's \<Rightarrow> 's \<times> py_error option" where
  "gather [] s = (s, None)"
| "gather (t # ts) s =
     (case t s of
        (s1, e1) \<Rightarrow>
          (case gather ts s1 of
             (s2, e2) \<Rightarrow> (s2, case e1 of Some e \<Rightarrow> Some e | None \<Rightarrow> e2)))"

definition process_league :: "env \<Rightarrow> int \<Rightarrow> system \<Rightarrow> system \<times> py_error option" where
  "process_league ev lid s =
     (case map_of TOP_LEAGUES lid of
        None \<Rightarrow> (s, Some KeyError)
      | Some name \<Rightarrow>
          (let s1 = info (LogProcessingLeague name) s
           in case ad_fixtures s1 of
                None \<Rightarrow> (info (LogFailedFetch lid) s1, None)
              | Some response \<Rightarrow>
                  if ad_standings s1
                  then gather (map (process_fixture ev) response) s1
                  else (info (LogFailedFetch lid) s1, None)))"

definition predict_matches_for_all_leagues :: "env \<Rightarrow> system \<Rightarrow> system \<times> py_error option" where
  "predict_matches_for_all_leagues ev s =
     gather (map (process_league ev) (map fst TOP_LEAGUES)) s"

text \<open>
  The columns left after the \<^verbatim>\<open>drop\<close>: probability, temperature, wind_speed,
  precipitation; the label is \<open>actual_outcome\<close>.
\<close>

definition feature_columns :: "prediction list \<Rightarrow> frame" where
  "feature_columns rows =
     map (\<lambda>r. [Some (probability r), temperature r, wind_speed r, precipitation r]) rows"

definition label_column :: "prediction list \<Rightarrow> string list" where
  "label_column rows = List.map_filter actual_outcome rows"

definition no_kwargs :: "(string \<times> timestamp) list" where
  "no_kwargs = []"

definition update_model :: "env \<Rightarrow> system \<Rightarrow> system \<times> py_error option" where
  "update_model ev s =
     (case get_historical_data (pdb s) no_kwargs of
        Inl e \<Rightarrow> (s, Some e)
      | Inr historical_data \<Rightarrow>
          if historical_data \<noteq> []
          then
            (case train (sk ev) (pmodel s) (feature_columns historical_data)
                        (label_column historical_data) of
               (pm, Some e) \<Rightarrow> (s\<lparr>pmodel := pm\<rparr>, Some e)
             | (pm, None) \<Rightarrow>
                 (let s1 = s\<lparr>pmodel := pm\<rparr>
                  in case model_get_feature_importance pm of
                       Inl e \<Rightarrow> (s1, Some e)
                     | Inr fi \<Rightarrow>
                         (info LogModelUpdated
                            (s1\<lparr>pdb := store_feature_importance (pdb s1) (importance_time ev) fi\<rparr>),
                          None)))
          else (info LogNoHistorical s, None))"

text \<open>
  \<^verbatim>\<open>evaluate_predictions\<close> calls
  \<^verbatim>\<open>self.db.get_historical_data(timestamp_after=one_week_ago)\<close>.
\<close>

definition evaluate_predictions :: "env \<Rightarrow> system \<Rightarrow> system \<times> py_error option" where
  "evaluate_predictions ev s =
     (case get_historical_data (pdb s) [(''timestamp_after'', one_week_ago ev)] of
        Inl e \<Rightarrow> (s, Some e)
      | Inr recent_predictions \<Rightarrow>
          if recent_predictions \<noteq> []
          then
            (case evaluate (sk ev) (pmodel s) (feature_columns recent_predictions)
                           (label_column recent_predictions) of
               Inl e \<Rightarrow> (s, Some e)
             | Inr m \<Rightarrow> (info (LogRecentPerformance m) s, None))
          else (info LogNoRecent s, None))"

text \<open>
  The body of the loop of \<^verbatim>\<open>run\<close>, up to the sleep: the three steps in a
  \<^verbatim>\<open>try\<close>, the first exception ends the \<^verbatim>\<open>try\<close> block and is logged by the
  \<^verbatim>\<open>except Exception\<close> handler. \<open>cycle_steps\<close> is the \<^verbatim>\<open>try\<close> block.
\<close>

definition cycle_steps :: "env \<Rightarrow> system \<Rightarrow> system \<times> py_error option" where
  "cycle_steps ev s =
     (case predict_matches_for_all_leagues ev s of
        (s1, Some e) \<Rightarrow> (s1, Some e)
      | (s1, None) \<Rightarrow>
          (case update_model ev s1 of
             (s2, Some e) \<Rightarrow> (s2, Some e)
           | (s2, None) \<Rightarrow> evaluate_predictions ev s2))"

definition run_cycle :: "env \<Rightarrow> system \<Rightarrow> system" where
  "run_cycle ev s =
     (case cycle_steps ev s of
        (s1, Some e) \<Rightarrow> info (LogCycleError e) s1
      | (s1, None) \<Rightarrow> s1)"

text \<open>
  \<^verbatim>\<open>while True\<close>: the loop never returns; \<open>run\<close> is its first iterations, one per
  element of the list.
\<close>

fun run :: "env list \<Rightarrow> system \<Rightarrow> system" where
  "run [] s = s"
| "run (ev # evs) s = run evs (run_cycle ev s)"

text \<open>
  The program, \<^verbatim>\<open>python football_prediction_system.py\<close>: the imports at the top of the
  module run before the class is defined and the loop started, and an exception there
  ends the process.
\<close>

definition main_program :: "env list \<Rightarrow> system \<Rightarrow> system \<times> py_error option" where
  "main_program evs s =
     (case import_engineer_features of
        Inl e \<Rightarrow> (s, Some e)
      | Inr u \<Rightarrow> (run evs s, None))"

section \<open>Notions of the specification and example states\<close>

text \<open>
  A sequence of cache writes, each with the reading of the clock it makes, and the
  writes of a sequence that share a key: same endpoint, same serialized parameter set.
\<close>

fun cache_writes ::
  "('j \<Rightarrow> string) \<Rightarrow> database \<Rightarrow> (timestamp \<times> string \<times> 'j \<times> 'j) list \<Rightarrow> database" where
  "cache_writes json_dumps db [] = db"
| "cache_writes json_dumps db ((now, endpoint, params, data) # ws) =
     cache_writes json_dumps (cache_data json_dumps db now endpoint params data) ws"

definition writes_for_key ::
  "('j \<Rightarrow> string) \<Rightarrow> (timestamp \<times> string \<times> 'j \<times> 'j) list \<Rightarrow> string \<Rightarrow> 'j
     \<Rightarrow> (timestamp \<times> string \<times> 'j \<times> 'j) list" where
  "writes_for_key json_dumps ws endpoint params =
     filter (\<lambda>(now, e, p, d). e = endpoint \<and> json_dumps p = json_dumps params) ws"

definition row_of_write :: "('j \<Rightarrow> string) \<Rightarrow> (timestamp \<times> string \<times> 'j \<times> 'j) \<Rightarrow> cache_row" where
  "row_of_write json_dumps w =
     (case w of (now, e, p, d) \<Rightarrow>
        \<lparr>c_endpoint = e, c_params = json_dumps p, c_data = json_dumps d, c_timestamp = now\<rparr>)"

text \<open>The mean of the non-NULL values of a column, 0 when there is none.\<close>

definition mean_or_zero :: "real option list \<Rightarrow> real" where
  "mean_or_zero col = (case sql_avg col of None \<Rightarrow> 0 | Some v \<Rightarrow> v)"

text \<open>The team won the match: at home or away, with more goals than the other side.\<close>

definition won :: "int \<Rightarrow> h2h_match \<Rightarrow> bool" where
  "won tid m = ((teams_home_id m = tid \<and> goals_home m > goals_away m) \<or>
               (teams_away_id m = tid \<and> goals_away m > goals_home m))"



text \<open>
  Dictionaries of integers with plain keys, as the parameter sets of the feed are: the
  list of the items in insertion order, the keys distinct. Python's \<^verbatim>\<open>==\<close> on
  dictionaries compares the items whatever their order. \<^verbatim>\<open>json.dumps\<close>, called without
  \<^verbatim>\<open>sort_keys\<close>, writes the items in insertion order, separated by a comma and a space,
  each as the key in double quotes, a colon, a space and the number in decimal.
\<close>

type_synonym py_dict = "(string \<times> int) list"

definition dict_equal :: "py_dict \<Rightarrow> py_dict \<Rightarrow> bool" where
  "dict_equal p q = (set p = set q)"

fun dumps_nat :: "nat \<Rightarrow> string" where
  "dumps_nat n =
     (if n < 10 then [''0123456789'' ! n]
      else dumps_nat (n div 10) @ [''0123456789'' ! (n mod 10)])"

definition dumps_int :: "int \<Rightarrow> string" where
  "dumps_int i = (if i < 0 then CHR ''-'' # dumps_nat (nat (- i)) else dumps_nat (nat i))"

definition dumps_item :: "string \<times> int \<Rightarrow> string" where
  "dumps_item kv = [CHR 0x22] @ fst kv @ [CHR 0x22] @ '': '' @ dumps_int (snd kv)"

fun dumps_items :: "py_dict \<Rightarrow> string" where
  "dumps_items [] = []"
| "dumps_items [kv] = dumps_item kv"
| "dumps_items (kv # kv' # rest) = dumps_item kv @ '', '' @ dumps_items (kv' # rest)"

definition json_dumps_dict :: "py_dict \<Rightarrow> string" where
  "json_dumps_dict d = ''{'' @ dumps_items d @ ''}''"

text \<open>The same parameter set written with its keys in two orders.\<close>

definition league_first :: py_dict where
  "league_first = [(''league'', 39), (''season'', 2023)]"

definition season_first :: py_dict where
  "season_first = [(''season'', 2023), (''league'', 39)]"

subsection \<open>Example states\<close>

definition example_row :: prediction where
  "example_row =
     \<lparr>fixture_id = 1, league_id = 39, home_team = ''A'', away_team = ''B'',
      predicted_outcome = ''H'', actual_outcome = None, probability = 3 / 5,
      accuracy = None, temperature = None, wind_speed = None, precipitation = None,
      timestamp = ''2024-01-01T10:00:00''\<rparr>"

definition example_db :: database where
  "example_db = \<lparr>cache = [], predictions = [example_row], feature_importance = []\<rparr>"

text \<open>One graded prediction in league 0, a hit, and one in league 39, a miss.\<close>

definition two_league_db :: database where
  "two_league_db =
     \<lparr>cache = [],
      predictions =
        [example_row\<lparr>fixture_id := 1, league_id := 0, actual_outcome := Some ''H'',
                     accuracy := Some 1\<rparr>,
         example_row\<lparr>fixture_id := 2, league_id := 39, actual_outcome := Some ''D'',
                     accuracy := Some 0\<rparr>],
      feature_importance = []\<rparr>"

text \<open>
  Three cache writes: two for the weather of fixture 1, the one with the later timestamp
  written first, and one for fixture 2.
\<close>

definition example_writes :: "(timestamp \<times> string \<times> string \<times> string) list" where
  "example_writes =
     [(''2024-01-01T12:00:00'', ''weather'', ''fixture_id=1'', ''temp_c=12''),
      (''2024-01-01T09:00:00'', ''weather'', ''fixture_id=1'', ''temp_c=9''),
      (''2024-01-01T13:00:00'', ''weather'', ''fixture_id=2'', ''temp_c=20'')]"

definition two_feature_clock :: "nat \<Rightarrow> timestamp" where
  "two_feature_clock i =
     (if i = 0 then ''2024-01-01T10:00:00.000100'' else ''2024-01-01T10:00:00.000200'')"

text \<open>The standings of the scenario: teams 33 and 34 in league 39.\<close>

definition scenario_home :: standing where
  "scenario_home = \<lparr>team_id = 33, rank = Some 3, form = Some ''WWDLW'', goalsDiff = Some 10\<rparr>"

definition scenario_away :: standing where
  "scenario_away = \<lparr>team_id = 34, rank = Some 10, form = Some ''LLDWL'', goalsDiff = Some (- 4)\<rparr>"

definition scenario_data :: football_data where
  "scenario_data =
     \<lparr>fd_team_statistics = None,
      fd_standings = Some [39 \<mapsto> [scenario_home, scenario_away]],
      fd_injuries = None,
      fd_h2h = None\<rparr>"

text \<open>
  Six meetings of teams 33 and 34, not in the order of their dates. Team 33 won the five
  most recent ones, at home and away, and lost the oldest.
\<close>

definition h2h_meeting :: "string \<Rightarrow> int \<Rightarrow> int \<Rightarrow> int \<Rightarrow> int \<Rightarrow> h2h_match" where
  "h2h_meeting date home away gh ga =
     \<lparr>fixture_date = date, teams_home_id = home, teams_away_id = away,
      goals_home = gh, goals_away = ga\<rparr>"

definition example_h2h :: "h2h_match list" where
  "example_h2h =
     [h2h_meeting ''2021-03-01T15:00:00+00:00'' 33 34 2 1,
      h2h_meeting ''2019-09-01T15:00:00+00:00'' 33 34 0 3,
      h2h_meeting ''2023-02-01T15:00:00+00:00'' 34 33 0 1,
      h2h_meeting ''2020-10-01T15:00:00+00:00'' 34 33 1 2,
      h2h_meeting ''2022-08-01T15:00:00+00:00'' 33 34 4 0,
      h2h_meeting ''2021-11-01T15:00:00+00:00'' 34 33 2 3]"

text \<open>
  A library for the examples. Its split refuses a table whose training part would be
  empty with \<open>ValueError\<close>, which is what scikit-learn's \<^verbatim>\<open>train_test_split\<close> does with a
  table without rows; the sizes are those of an 80/20 split in exact arithmetic and the
  shuffle is left out. The scaler is the identity on rows of the width of the first row
  and the search returns a fixed classifier.
\<close>

definition example_classifier :: classifier where
  "example_classifier =
     \<lparr>classes = [''A'', ''D'', ''H''],
      predict_proba = (\<lambda>X. Inr (map (\<lambda>x. [1 / 5, 3 / 10, 1 / 2]) X)),
      feature_names_in = [''probability'', ''temperature'', ''wind_speed'', ''precipitation''],
      feature_importances = [2 / 5, 3 / 10, 1 / 5, 1 / 10]\<rparr>"

definition example_sklearn :: sklearn where
  "example_sklearn =
     \<lparr>train_test_split =
        (\<lambda>X y. if length X \<noteq> length y then Inl ValueError
                else (let n_train = length X - (length X + 4) div 5
                      in if n_train = 0 then Inl ValueError
                         else Inr (take n_train X, drop n_train X,
                                   take n_train y, drop n_train y))),
      fit_scaler = (\<lambda>X. case X of [] \<Rightarrow> Inl ValueError | r # rs \<Rightarrow> Inr (length r, \<lambda>x. x)),
      grid_search_fit = (\<lambda>X y. Inr example_classifier),
      score = (\<lambda>clf X y. Inr \<lparr>m_accuracy = 1, m_precision = 1, m_recall = 1, m_f1 = 1,
                                m_roc_auc = 1\<rparr>)\<rparr>"

definition example_fixture :: fixture where
  "example_fixture =
     \<lparr>fx_id = 1, fx_league_id = 39, fx_home_id = 33, fx_home_name = ''A'',
      fx_away_id = 34, fx_away_name = ''B''\<rparr>"

definition example_env :: env where
  "example_env =
     \<lparr>sk = example_sklearn,
      prediction_time = (\<lambda>fx. ''2024-01-01T10:00:00''),
      importance_time = (\<lambda>i. ''2024-01-01T10:00:01''),
      one_week_ago = ''2023-12-25T10:00:00''\<rparr>"


text \<open>A system just started, with no artifact on disk, an empty store and one fixture.\<close>

definition example_system :: system where
  "example_system =
     \<lparr>pdb = init_db, pmodel = untrained, logged = [],
      ad_fixtures = Some [example_fixture], ad_standings = True\<rparr>"

section \<open>Properties of the store\<close>

subsection \<open>Predictions\<close>

lemma find_fixture_None:
  "find (\<lambda>r. fixture_id r = fid) rows = None \<longleftrightarrow> fid \<notin> fixture_id ` set rows"
  by (auto simp: find_None_iff)

lemma find_fixture_distinct:
  "distinct (map fixture_id rows) \<Longrightarrow> find (\<lambda>r. fixture_id r = fid) rows = Some q
     \<Longrightarrow> r \<in> set rows \<Longrightarrow> fixture_id r = fid \<Longrightarrow> r = q"
proof (induction rows)
  case Nil
  then show ?case by simp
next
  case (Cons x xs)
  then show ?case
    by (auto split: if_splits simp: find_Some_iff image_iff)
qed

text \<open>The primary key: both writing operations keep the fixture ids distinct.\<close>

lemma store_prediction_distinct:
  "distinct (map fixture_id (predictions db)) \<Longrightarrow>
   distinct (map fixture_id (predictions (store_prediction db now fid lid h a out p w)))"
  by (auto simp: store_prediction_def distinct_map_filter)

lemma update_prediction_accuracy_ids:
  "map fixture_id (predictions (update_prediction_accuracy db fid a)) =
   map fixture_id (predictions db)"
  by (auto simp: update_prediction_accuracy_def Let_def split: option.splits)

text \<open>
  C1, as the code has it. \<open>store_prediction\<close> replaces the whole row of the fixture
  id: after the call there is exactly one row with that id, it holds the forecast fields
  given (teams, predicted outcome, probability, weather, timestamp), and its
  \<open>actual_outcome\<close> and \<open>accuracy\<close> are NULL whatever they were before. The rows of the
  other fixtures, the cache and the feature-importance table are unchanged.
\<close>

theorem store_prediction_replaces_row:
  "filter (\<lambda>r. fixture_id r = fid)
     (predictions (store_prediction db now fid lid home away outcome prob weather_data)) =
     [\<lparr>fixture_id = fid, league_id = lid, home_team = home, away_team = away,
       predicted_outcome = outcome, actual_outcome = None, probability = prob,
       accuracy = None, temperature = weather_data ''temp_c'',
       wind_speed = weather_data ''wind_kph'',
       precipitation = weather_data ''precip_mm'', timestamp = now\<rparr>] \<and>
   filter (\<lambda>r. fixture_id r \<noteq> fid)
     (predictions (store_prediction db now fid lid home away outcome prob weather_data)) =
     filter (\<lambda>r. fixture_id r \<noteq> fid) (predictions db) \<and>
   cache (store_prediction db now fid lid home away outcome prob weather_data) = cache db \<and>
   feature_importance (store_prediction db now fid lid home away outcome prob weather_data) =
     feature_importance db"
  by (simp add: store_prediction_def filter_empty_conv)

text \<open>
  C1, as the claim states it, fails: the prediction of fixture 1 is graded (actual
  outcome H, accuracy 1), then the fixture is predicted again, and the row has lost both
  values.
\<close>

theorem store_prediction_erases_grading:
  "actual_outcome (hd (predictions (update_prediction_accuracy example_db 1 ''H''))) = Some ''H'' \<and>
   accuracy (hd (predictions (update_prediction_accuracy example_db 1 ''H''))) = Some 1 \<and>
   map actual_outcome (predictions
     (store_prediction (update_prediction_accuracy example_db 1 ''H'')
        ''2024-01-02T10:00:00'' 1 39 ''A'' ''B'' ''D'' (1 / 2) Map.empty)) = [None] \<and>
   map accuracy (predictions
     (store_prediction (update_prediction_accuracy example_db 1 ''H'')
        ''2024-01-02T10:00:00'' 1 39 ''A'' ''B'' ''D'' (1 / 2) Map.empty)) = [None]"
  by (simp add: example_db_def example_row_def store_prediction_def
      update_prediction_accuracy_def)

text \<open>
  C6. \<open>update_prediction_accuracy\<close> with a fixture id that no row has returns the
  database as it is. With an id that a row has (the ids being distinct, as the primary
  key makes them), it sets in that row \<open>actual_outcome\<close> to the outcome given and
  \<open>accuracy\<close> to 1 if the row's \<open>predicted_outcome\<close> equals it and to 0 otherwise, and
  changes nothing else. In both cases the list of fixture ids is the same afterwards: no
  row is created.
\<close>

theorem update_prediction_accuracy_effect:
  "(fid \<notin> fixture_id ` set (predictions db) \<longrightarrow> update_prediction_accuracy db fid a = db) \<and>
   (fid \<in> fixture_id ` set (predictions db) \<and> distinct (map fixture_id (predictions db)) \<longrightarrow>
      update_prediction_accuracy db fid a =
        db\<lparr>predictions :=
          map (\<lambda>r. if fixture_id r = fid
                    then r\<lparr>actual_outcome := Some a,
                           accuracy := Some (if predicted_outcome r = a then 1 else 0)\<rparr>
                    else r)
              (predictions db)\<rparr>) \<and>
   map fixture_id (predictions (update_prediction_accuracy db fid a)) =
     map fixture_id (predictions db)"
proof (intro conjI impI)
  assume "fid \<notin> fixture_id ` set (predictions db)"
  then have "find (\<lambda>r. fixture_id r = fid) (predictions db) = None"
    by (simp add: find_fixture_None)
  then show "update_prediction_accuracy db fid a = db"
    by (simp add: update_prediction_accuracy_def)
next
  assume h: "fid \<in> fixture_id ` set (predictions db) \<and> distinct (map fixture_id (predictions db))"
  then obtain q where q: "find (\<lambda>r. fixture_id r = fid) (predictions db) = Some q"
    using find_fixture_None [of fid "predictions db"]
    by (cases "find (\<lambda>r. fixture_id r = fid) (predictions db)") auto
  have "\<And>r. r \<in> set (predictions db) \<Longrightarrow> fixture_id r = fid
          \<Longrightarrow> predicted_outcome r = predicted_outcome q"
    using find_fixture_distinct [OF _ q] h by blast
  then have "map (\<lambda>r. if fixture_id r = fid
                    then r\<lparr>actual_outcome := Some a,
                           accuracy := Some (if predicted_outcome q = a then 1 else 0)\<rparr>
                    else r) (predictions db) =
        map (\<lambda>r. if fixture_id r = fid
                    then r\<lparr>actual_outcome := Some a,
                           accuracy := Some (if predicted_outcome r = a then 1 else 0)\<rparr>
                    else r) (predictions db)"
    by (intro map_cong) auto
  then show "update_prediction_accuracy db fid a =
        db\<lparr>predictions :=
          map (\<lambda>r. if fixture_id r = fid
                    then r\<lparr>actual_outcome := Some a,
                           accuracy := Some (if predicted_outcome r = a then 1 else 0)\<rparr>
                    else r)
              (predictions db)\<rparr>"
    using q by (simp add: update_prediction_accuracy_def Let_def)
next
  show "map fixture_id (predictions (update_prediction_accuracy db fid a)) =
     map fixture_id (predictions db)"
    by (rule update_prediction_accuracy_ids)
qed

theorem update_prediction_accuracy_effect_witness:
  "1 \<in> fixture_id ` set (predictions example_db) \<and>
   distinct (map fixture_id (predictions example_db)) \<and>
   predictions (update_prediction_accuracy example_db 1 ''H'') =
     [example_row\<lparr>actual_outcome := Some ''H'', accuracy := Some 1\<rparr>] \<and>
   predictions (update_prediction_accuracy example_db 1 ''D'') =
     [example_row\<lparr>actual_outcome := Some ''D'', accuracy := Some 0\<rparr>] \<and>
   2 \<notin> fixture_id ` set (predictions example_db) \<and>
   update_prediction_accuracy example_db 2 ''H'' = example_db"
  using update_prediction_accuracy_effect [of 1 example_db "''H''"]
    update_prediction_accuracy_effect [of 1 example_db "''D''"]
    update_prediction_accuracy_effect [of 2 example_db "''H''"]
  by (simp add: example_db_def example_row_def)

text \<open>
  C10. For league id 0 \<open>get_prediction_accuracy\<close> returns what it returns without a
  league: the mean accuracy of the graded rows of all leagues. The filter on the league
  is applied for a non-zero id only. In the example the graded row of league 0 is a hit
  and that of league 39 a miss: the answer for league 0 is 1/2, while the mean over the
  rows of league 0 is 1.
\<close>

theorem get_prediction_accuracy_league_zero:
  "get_prediction_accuracy db (Some 0) = get_prediction_accuracy db None \<and>
   get_prediction_accuracy db None =
     mean_or_zero (map accuracy (filter graded (predictions db))) \<and>
   get_prediction_accuracy db (Some l) =
     (if l = 0 then mean_or_zero (map accuracy (filter graded (predictions db)))
      else mean_or_zero (map accuracy
             (filter (\<lambda>r. league_id r = l \<and> graded r) (predictions db)))) \<and>
   get_prediction_accuracy two_league_db (Some 0) = 1 / 2 \<and>
   mean_or_zero (map accuracy
     (filter (\<lambda>r. league_id r = 0 \<and> graded r) (predictions two_league_db))) = 1"
proof -
  have "get_prediction_accuracy two_league_db (Some 0) = 1 / 2 \<and>
     mean_or_zero (map accuracy
       (filter (\<lambda>r. league_id r = 0 \<and> graded r) (predictions two_league_db))) = 1"
    by (simp add: get_prediction_accuracy_def mean_or_zero_def two_league_db_def
        example_row_def sql_avg_def graded_def)
  then show ?thesis
    by (simp add: get_prediction_accuracy_def mean_or_zero_def)
qed

text \<open>
  C3. \<open>get_historical_data\<close> takes no time bound: called with the keyword argument
  \<open>timestamp_after\<close>, as \<open>evaluate_predictions\<close> calls it, it raises \<open>TypeError\<close>, and
  so does \<open>evaluate_predictions\<close>, in every state. Called without argument it returns
  the graded rows whatever their timestamps.
\<close>

theorem get_historical_data_takes_no_bound:
  "get_historical_data db [(''timestamp_after'', t)] = Inl TypeError \<and>
   evaluate_predictions ev s = (s, Some TypeError) \<and>
   get_historical_data db no_kwargs = Inr (filter graded (predictions db))"
  by (simp add: evaluate_predictions_def get_historical_data_def no_kwargs_def)

subsection \<open>Cache\<close>

lemma set_order_by_desc: "set (order_by_desc key rows) = set rows"
  by (simp add: order_by_desc_def)

lemma sorted_last_max:
  "sorted (map key ys) \<Longrightarrow> y \<in> set ys \<Longrightarrow> key y \<le> key (last ys)"
  by (induction ys) (auto split: if_splits)

lemma order_by_desc_hd:
  assumes "r \<in> set rows"
  shows "key r \<le> key (hd (order_by_desc key rows))"
proof -
  let ?ys = "sort_key key (rev rows)"
  have ne: "?ys \<noteq> []" using assms by (metis empty_iff list.set(1) set_rev set_sort)
  have "key r \<le> key (last ?ys)"
    using sorted_last_max [of key ?ys r] assms by simp
  then show ?thesis
    using ne by (simp add: order_by_desc_def hd_rev)
qed

lemma take1_order_by_desc:
  "take 1 (order_by_desc key rows) = (if rows = [] then [] else [hd (order_by_desc key rows)])"
proof (cases "order_by_desc key rows")
  case Nil
  then have "set rows = {}" using set_order_by_desc [of key rows] by simp
  then show ?thesis using Nil by simp
next
  case (Cons a as)
  then have "set rows \<noteq> {}" using set_order_by_desc [of key rows] by auto
  then show ?thesis using Cons by auto
qed

lemma hd_order_by_desc_mem:
  "rows \<noteq> [] \<Longrightarrow> hd (order_by_desc key rows) \<in> set rows"
  by (metis hd_in_set set_order_by_desc set_empty)

lemma cache_of_writes:
  "cache (cache_writes json_dumps db ws) = cache db @ map (row_of_write json_dumps) ws"
  by (induction ws arbitrary: db) (auto simp: cache_data_def row_of_write_def)

lemma cache_select_writes:
  "cache_select json_dumps (cache_writes json_dumps init_db ws) endpoint params =
     map (row_of_write json_dumps) (writes_for_key json_dumps ws endpoint params)"
  by (induction ws)
     (auto simp: cache_select_def cache_of_writes init_db_def writes_for_key_def row_of_write_def)

lemma json_dumps_dict_league_first:
  "json_dumps_dict league_first =
     ''{'' @ [CHR 0x22] @ ''league'' @ [CHR 0x22] @ '': 39, '' @
     [CHR 0x22] @ ''season'' @ [CHR 0x22] @ '': 2023}''"
  by (simp add: json_dumps_dict_def league_first_def dumps_item_def dumps_int_def)

lemma json_dumps_dict_season_first:
  "json_dumps_dict season_first =
     ''{'' @ [CHR 0x22] @ ''season'' @ [CHR 0x22] @ '': 2023, '' @
     [CHR 0x22] @ ''league'' @ [CHR 0x22] @ '': 39}''"
  by (simp add: json_dumps_dict_def season_first_def dumps_item_def dumps_int_def)

text \<open>
  C5, as the code has it. After any sequence of cache writes on an empty store,
  \<open>get_cached_data\<close> for an endpoint and a parameter set returns None if no write has
  that key, and otherwise the payload of a write with that key whose timestamp is the
  greatest among the writes with that key (the payloads written being of those that
  \<open>json.loads\<close> reads back from their \<open>json.dumps\<close> text). A write has the key exactly
  when its endpoint is the same and the \<open>json.dumps\<close> text of its parameter set is the
  same text. That text is not canonical: the dictionaries \<open>league_first\<close> and
  \<open>season_first\<close> are equal and have different texts.
\<close>

theorem get_cached_data_latest:
  assumes rt: "\<forall>w \<in> set ws. json_loads (json_dumps (snd (snd (snd w)))) = snd (snd (snd w))"
  shows
    "(writes_for_key json_dumps ws endpoint params = [] \<longrightarrow>
        get_cached_data json_dumps json_loads (cache_writes json_dumps init_db ws) endpoint params
          = None) \<and>
     (writes_for_key json_dumps ws endpoint params \<noteq> [] \<longrightarrow>
        (\<exists>w \<in> set (writes_for_key json_dumps ws endpoint params).
           get_cached_data json_dumps json_loads (cache_writes json_dumps init_db ws)
             endpoint params = Some (snd (snd (snd w))) \<and>
           (\<forall>w' \<in> set (writes_for_key json_dumps ws endpoint params). fst w' \<le> fst w))) \<and>
     (\<forall>w. w \<in> set (writes_for_key json_dumps ws endpoint params) \<longleftrightarrow>
        w \<in> set ws \<and> fst (snd w) = endpoint \<and>
        json_dumps (fst (snd (snd w))) = json_dumps params) \<and>
     dict_equal league_first season_first \<and>
     json_dumps_dict league_first \<noteq> json_dumps_dict season_first"
proof (intro conjI impI allI)
  let ?ms = "writes_for_key json_dumps ws endpoint params"
  let ?sel = "cache_select json_dumps (cache_writes json_dumps init_db ws) endpoint params"
  have sel: "?sel = map (row_of_write json_dumps) ?ms" by (rule cache_select_writes)
  {
    assume "?ms = []"
    then show "get_cached_data json_dumps json_loads (cache_writes json_dumps init_db ws)
        endpoint params = None"
      by (simp add: get_cached_data_def sel order_by_desc_def)
  }
  {
    assume ne: "?ms \<noteq> []"
    then have ne': "?sel \<noteq> []" by (simp add: sel)
    let ?r = "hd (order_by_desc c_timestamp ?sel)"
    have "?r \<in> set ?sel" using ne' by (rule hd_order_by_desc_mem)
    then obtain w where w: "w \<in> set ?ms" "?r = row_of_write json_dumps w"
      unfolding sel by auto
    have "w \<in> set ws" using w(1) by (simp add: writes_for_key_def)
    then have rtw: "json_loads (json_dumps (snd (snd (snd w)))) = snd (snd (snd w))"
      using rt by blast
    have res: "get_cached_data json_dumps json_loads (cache_writes json_dumps init_db ws)
        endpoint params = Some (json_loads (c_data ?r))"
      unfolding get_cached_data_def take1_order_by_desc using ne' by simp
    have "c_data ?r = json_dumps (snd (snd (snd w)))"
      using w(2) by (simp add: row_of_write_def split: prod.splits)
    then have r1: "get_cached_data json_dumps json_loads (cache_writes json_dumps init_db ws)
        endpoint params = Some (snd (snd (snd w)))"
      using res rtw by simp
    have r2: "\<forall>w' \<in> set ?ms. fst w' \<le> fst w"
    proof
      fix w' assume "w' \<in> set ?ms"
      then have "row_of_write json_dumps w' \<in> set ?sel" unfolding sel by simp
      then have "c_timestamp (row_of_write json_dumps w') \<le> c_timestamp ?r"
        by (rule order_by_desc_hd)
      then show "fst w' \<le> fst w"
        unfolding w(2) by (simp add: row_of_write_def split: prod.splits)
    qed
    show "\<exists>w \<in> set ?ms.
           get_cached_data json_dumps json_loads (cache_writes json_dumps init_db ws)
             endpoint params = Some (snd (snd (snd w))) \<and>
           (\<forall>w' \<in> set ?ms. fst w' \<le> fst w)"
      using w(1) r1 r2 by blast
  }
  show "dict_equal league_first season_first"
    by (auto simp: dict_equal_def league_first_def season_first_def)
  show "json_dumps_dict league_first \<noteq> json_dumps_dict season_first"
    by (simp add: json_dumps_dict_league_first json_dumps_dict_season_first)
  fix w
  show "w \<in> set ?ms \<longleftrightarrow>
      w \<in> set ws \<and> fst (snd w) = endpoint \<and> json_dumps (fst (snd (snd w))) = json_dumps params"
    by (auto simp: writes_for_key_def)
qed

theorem get_cached_data_latest_witness:
  "list_all (\<lambda>w. (\<lambda>x. x) ((\<lambda>x. x) (snd (snd (snd w)))) = snd (snd (snd w))) example_writes \<and>
   writes_for_key (\<lambda>x. x) example_writes ''weather'' ''fixture_id=1'' \<noteq> [] \<and>
   get_cached_data (\<lambda>x. x) (\<lambda>x. x) (cache_writes (\<lambda>x. x) init_db example_writes)
     ''weather'' ''fixture_id=1'' = Some ''temp_c=12'' \<and>
   writes_for_key (\<lambda>x. x) example_writes ''weather'' ''fixture_id=3'' = [] \<and>
   get_cached_data (\<lambda>x. x) (\<lambda>x. x) (cache_writes (\<lambda>x. x) init_db example_writes)
     ''weather'' ''fixture_id=3'' = None"
  using get_cached_data_latest
      [of example_writes "\<lambda>x. x" "\<lambda>x. x" "''weather''" "''fixture_id=1''"]
    get_cached_data_latest
      [of example_writes "\<lambda>x. x" "\<lambda>x. x" "''weather''" "''fixture_id=3''"]
  by (simp add: example_writes_def writes_for_key_def get_cached_data_def cache_select_def
      cache_data_def init_db_def order_by_desc_def)

text \<open>
  C5, as the claim states it, fails on the comparison of the parameter sets. A payload
  is cached for the endpoint \<open>fixtures\<close> under \<open>{'league': 39, 'season': 2023}\<close>; the
  look-up with \<open>{'season': 2023, 'league': 39}\<close>, an equal dictionary, finds nothing,
  although the store has an entry for the first.
\<close>

theorem get_cached_data_misses_reordered_params:
  "dict_equal league_first season_first \<and>
   cache_select json_dumps_dict
     (cache_data json_dumps_dict init_db ''2024-01-01T12:00:00'' ''fixtures'' league_first
        [(''results'', 10)])
     ''fixtures'' league_first \<noteq> [] \<and>
   get_cached_data json_dumps_dict (\<lambda>text. [])
     (cache_data json_dumps_dict init_db ''2024-01-01T12:00:00'' ''fixtures'' league_first
        [(''results'', 10)])
     ''fixtures'' season_first = None"
proof -
  have "dict_equal league_first season_first"
    by (auto simp: dict_equal_def league_first_def season_first_def)
  moreover have "json_dumps_dict league_first \<noteq> json_dumps_dict season_first"
    by (simp add: json_dumps_dict_league_first json_dumps_dict_season_first)
  ultimately show ?thesis
    by (simp add: get_cached_data_def cache_select_def cache_data_def init_db_def
        order_by_desc_def)
qed

subsection \<open>Feature importance\<close>

text \<open>
  C8. \<open>get_feature_importance\<close> returns at most one row, whatever was stored. After
  one snapshot of two features, the first more important than the second and written
  first, it returns the row of the second feature alone.
\<close>

theorem get_feature_importance_single_row:
  "length (get_feature_importance db) \<le> 1 \<and>
   get_feature_importance
     (store_feature_importance init_db two_feature_clock
        [(''home_team_rank'', 3 / 5), (''away_team_rank'', 2 / 5)]) =
     [(''away_team_rank'', 2 / 5)]"
  by (simp add: get_feature_importance_def store_feature_importance_def init_db_def
      two_feature_clock_def order_by_desc_def)

section \<open>Properties of the feature engine\<close>

lemma form_home: "calculate_form ''WWDLW'' = 7 / 10"
  by (simp add: calculate_form_def)

lemma form_away: "calculate_form ''LLDWL'' = 3 / 10"
  by (simp add: calculate_form_def)

text \<open>
  C4, as the code has it. When the standing found for the home team has rank 3, form
  WWDLW and goal difference 10, the standing found for the away team has rank 10, form
  LLDWL and goal difference -4, and there are no team statistics, no injuries and no
  head-to-head matches, \<open>feature_engineering\<close> returns the features below: the forms
  are 0.7 and 0.3 (LLDWL has one win and one draw in five results), and the injury,
  clean-sheet, attack, defense and recent-performance fields are 0.
\<close>

theorem feature_engineering_scenario:
  assumes "get_team_data fd h l = (None, Some hs)"
    and "rank hs = Some 3" and "form hs = Some ''WWDLW''" and "goalsDiff hs = Some 10"
    and "get_team_data fd a l = (None, Some as)"
    and "rank as = Some 10" and "form as = Some ''LLDWL''" and "goalsDiff as = Some (- 4)"
    and "get_injuries fd h l = []" and "get_injuries fd a l = []"
    and "get_h2h_data fd h a = []"
  shows "feature_engineering fd h a l =
     \<lparr>home_team_rank = 3, away_team_rank = 10,
      home_team_form = 7 / 10, away_team_form = 3 / 10,
      home_team_injuries = 0, away_team_injuries = 0,
      home_team_goal_diff = 10, away_team_goal_diff = - 4,
      home_team_clean_sheets = 0, away_team_clean_sheets = 0,
      home_team_attack = 0, away_team_attack = 0,
      home_team_defense = 0, away_team_defense = 0,
      home_team_recent_performance = 0, away_team_recent_performance = 0\<rparr>"
  using assms
  by (simp add: feature_engineering_def get_or_def dict_get_def form_home form_away
      calculate_recent_performance_def)

theorem feature_engineering_scenario_witness:
  "get_team_data scenario_data 33 39 = (None, Some scenario_home) \<and>
   get_team_data scenario_data 34 39 = (None, Some scenario_away) \<and>
   get_injuries scenario_data 33 39 = [] \<and> get_injuries scenario_data 34 39 = [] \<and>
   get_h2h_data scenario_data 33 34 = [] \<and>
   feature_engineering scenario_data 33 34 39 =
     \<lparr>home_team_rank = 3, away_team_rank = 10,
      home_team_form = 7 / 10, away_team_form = 3 / 10,
      home_team_injuries = 0, away_team_injuries = 0,
      home_team_goal_diff = 10, away_team_goal_diff = - 4,
      home_team_clean_sheets = 0, away_team_clean_sheets = 0,
      home_team_attack = 0, away_team_attack = 0,
      home_team_defense = 0, away_team_defense = 0,
      home_team_recent_performance = 0, away_team_recent_performance = 0\<rparr>"
proof -
  have h: "get_team_data scenario_data 33 39 = (None, Some scenario_home)"
    by (simp add: get_team_data_def scenario_data_def scenario_home_def scenario_away_def)
  have a: "get_team_data scenario_data 34 39 = (None, Some scenario_away)"
    by (simp add: get_team_data_def scenario_data_def scenario_home_def scenario_away_def)
  have i: "get_injuries scenario_data 33 39 = []" "get_injuries scenario_data 34 39 = []"
    by (simp_all add: get_injuries_def scenario_data_def)
  have m: "get_h2h_data scenario_data 33 34 = []"
    by (simp add: get_h2h_data_def scenario_data_def)
  show ?thesis
    using h a i m
      feature_engineering_scenario [OF h _ _ _ a _ _ _ i m]
    by (simp add: scenario_home_def scenario_away_def)
qed

text \<open>
  C4, as the claim states it, fails on the away form: in the scenario the code yields
  0.3, not 0.1.
\<close>

theorem away_form_is_not_one_tenth:
  "away_team_form (feature_engineering scenario_data 33 34 39) = 3 / 10 \<and>
   away_team_form (feature_engineering scenario_data 33 34 39) \<noteq> 1 / 10"
  by (simp add: feature_engineering_def get_or_def dict_get_def form_away Let_def
      get_team_data_def get_injuries_def get_h2h_data_def
      scenario_data_def scenario_home_def scenario_away_def)

subsection \<open>Recent performance\<close>

lemma mset_sorted_reverse: "mset (sorted_reverse key xs) = mset xs"
  by (simp add: sorted_reverse_def)

lemma sorted_sorted_reverse: "sorted (rev (map key (sorted_reverse key xs)))"
  by (simp add: sorted_reverse_def rev_map)

lemma sorted_rev_take_drop:
  assumes "sorted (rev (map key ys))" "a \<in> set (take n ys)" "b \<in> set (drop n ys)"
  shows "key b \<le> key a"
proof -
  have "ys = take n ys @ drop n ys" by simp
  then have "sorted (rev (map key (take n ys @ drop n ys)))" using assms(1) by simp
  then show ?thesis using assms(2,3)
    by (auto simp: sorted_append rev_map simp del: append_take_drop_id)
qed

lemma match_points_bounds: "0 \<le> match_points tid m \<and> match_points tid m \<le> 3"
  by (simp add: match_points_def)

lemma sum_points_won:
  "\<forall>m \<in> set ms. won tid m \<Longrightarrow> sum_list (map (match_points tid) ms) = 3 * int (length ms)"
  by (induction ms) (auto simp: match_points_def won_def)

text \<open>
  C7. With the default window of 5, \<open>calculate_recent_performance\<close> considers the
  first five matches of the list sorted by descending date (all of them if there are
  fewer): these are matches of the list, in descending order of date, and no match left
  out has a later date than one considered. A match counts 3 if the team won it, else 1
  if it was a draw, else 0, and the result is the sum of the points divided by three
  times the number of matches considered. The empty list gives 0, and a team that won
  every match considered gets 1. Dates are ordered as the texts the code compares.
\<close>

theorem calculate_recent_performance_spec:
  fixes h2h :: "h2h_match list"
  defines "recent \<equiv> take 5 (sorted_reverse fixture_date h2h)"
  shows
    "calculate_recent_performance h2h tid 5 =
       (if h2h = [] then 0
        else real_of_int (sum_list (map (match_points tid) recent)) / real (length recent * 3)) \<and>
     length recent = min 5 (length h2h) \<and>
     mset (recent @ drop 5 (sorted_reverse fixture_date h2h)) = mset h2h \<and>
     sorted (rev (map fixture_date recent)) \<and>
     (\<forall>a \<in> set recent. \<forall>b \<in> set (drop 5 (sorted_reverse fixture_date h2h)).
        fixture_date b \<le> fixture_date a) \<and>
     (\<forall>m. match_points tid m =
        (if won tid m then 3 else if goals_home m = goals_away m then 1 else 0)) \<and>
     calculate_recent_performance [] tid 5 = 0 \<and>
     (h2h \<noteq> [] \<and> (\<forall>m \<in> set recent. won tid m) \<longrightarrow>
        calculate_recent_performance h2h tid 5 = 1)"
proof -
  let ?s = "sorted_reverse fixture_date h2h"
  have len: "length ?s = length h2h" by (simp add: sorted_reverse_def)
  have c1: "calculate_recent_performance h2h tid 5 =
       (if h2h = [] then 0
        else real_of_int (sum_list (map (match_points tid) recent)) / real (length recent * 3))"
    using len by (auto simp: calculate_recent_performance_def slice_to_def recent_def Let_def)
  have c2: "length recent = min 5 (length h2h)" using len by (simp add: recent_def min.commute)
  have c3: "mset (recent @ drop 5 ?s) = mset h2h"
    by (simp add: recent_def mset_sorted_reverse)
  have srt: "sorted (rev (map fixture_date ?s))" by (rule sorted_sorted_reverse)
  have "?s = recent @ drop 5 ?s" by (simp add: recent_def)
  then have "sorted (rev (map fixture_date (recent @ drop 5 ?s)))" using srt by simp
  then have c4: "sorted (rev (map fixture_date recent))"
    by (simp add: sorted_append rev_map)
  have c5: "\<forall>a \<in> set recent. \<forall>b \<in> set (drop 5 ?s). fixture_date b \<le> fixture_date a"
    using sorted_rev_take_drop [OF srt] by (auto simp: recent_def)
  have c6: "\<forall>m. match_points tid m =
      (if won tid m then 3 else if goals_home m = goals_away m then 1 else 0)"
    by (simp add: match_points_def won_def)
  have c7: "calculate_recent_performance [] tid 5 = 0"
    by (simp add: calculate_recent_performance_def)
  have c8: "h2h \<noteq> [] \<and> (\<forall>m \<in> set recent. won tid m) \<longrightarrow>
      calculate_recent_performance h2h tid 5 = 1"
  proof
    assume h: "h2h \<noteq> [] \<and> (\<forall>m \<in> set recent. won tid m)"
    then have ne: "recent \<noteq> []" using c2 by (cases h2h) auto
    have "sum_list (map (match_points tid) recent) = 3 * int (length recent)"
      using h sum_points_won by blast
    then show "calculate_recent_performance h2h tid 5 = 1"
      using c1 h ne by simp
  qed
  show ?thesis using c1 c2 c3 c4 c5 c6 c7 c8 by blast
qed

lemma example_h2h_sorted:
  "sorted_reverse fixture_date example_h2h =
     [h2h_meeting ''2023-02-01T15:00:00+00:00'' 34 33 0 1,
      h2h_meeting ''2022-08-01T15:00:00+00:00'' 33 34 4 0,
      h2h_meeting ''2021-11-01T15:00:00+00:00'' 34 33 2 3,
      h2h_meeting ''2021-03-01T15:00:00+00:00'' 33 34 2 1,
      h2h_meeting ''2020-10-01T15:00:00+00:00'' 34 33 1 2,
      h2h_meeting ''2019-09-01T15:00:00+00:00'' 33 34 0 3]"
  by (simp add: sorted_reverse_def example_h2h_def h2h_meeting_def)

theorem calculate_recent_performance_spec_witness:
  "example_h2h \<noteq> [] \<and>
   list_all (won 33) (take 5 (sorted_reverse fixture_date example_h2h)) \<and>
   calculate_recent_performance example_h2h 33 5 = 1 \<and>
   calculate_recent_performance example_h2h 34 5 = 0"
proof -
  have w: "\<forall>m \<in> set (take 5 (sorted_reverse fixture_date example_h2h)). won 33 m"
    by (simp add: example_h2h_sorted won_def h2h_meeting_def)
  have ne: "example_h2h \<noteq> []" by (simp add: example_h2h_def)
  have one: "calculate_recent_performance example_h2h 33 5 = 1"
    using calculate_recent_performance_spec [of example_h2h 33] w ne by blast
  have "calculate_recent_performance example_h2h 34 5 =
       real_of_int (sum_list (map (match_points 34)
         (take 5 (sorted_reverse fixture_date example_h2h)))) /
       real (length (take 5 (sorted_reverse fixture_date example_h2h)) * 3)"
    using calculate_recent_performance_spec [of example_h2h 34] ne by simp
  then have zero: "calculate_recent_performance example_h2h 34 5 = 0"
    by (simp add: example_h2h_sorted match_points_def h2h_meeting_def)
  show ?thesis using w ne one zero by (simp add: list_all_iff)
qed

section \<open>Properties of the model and of the cycle\<close>


text \<open>
  The import of line 9 fails, so the program ends in \<open>ImportError\<close> before a cycle
  starts; and a call of \<open>process_fixture\<close> ends at the call of the unbound name, before
  \<open>predict\<close>, with the state as it was.
\<close>

lemma import_engineer_features_fails: "import_engineer_features = Inl ImportError"
  by (simp add: import_engineer_features_def from_import_def feature_engineering_names_def)

lemma main_program_fails: "main_program evs s = (s, Some ImportError)"
  by (simp add: main_program_def import_engineer_features_fails)










text \<open>
  C9, as the code has it. \<open>train\<close> has no check of its own: on the empty table it fails
  with the exception the library's split raises there, whichever it is, and leaves the
  model as it was. At the level of the orchestrator, when the store has no graded
  prediction, \<open>update_model\<close> does not call \<open>train\<close>: it logs that there is no
  historical data and returns without exception.
\<close>

theorem train_empty_propagates:
  "(train_test_split lib [] [] = Inl e \<longrightarrow> train lib pm [] [] = (pm, Some e)) \<and>
   (filter graded (predictions (pdb s)) = [] \<longrightarrow>
      update_model ev s = (info LogNoHistorical s, None))"
  by (simp add: train_def update_model_def get_historical_data_def no_kwargs_def)

theorem train_empty_propagates_witness:
  "train_test_split example_sklearn [] [] = Inl ValueError \<and>
   train example_sklearn untrained [] [] = (untrained, Some ValueError) \<and>
   filter graded (predictions (pdb example_system)) = [] \<and>
   update_model example_env example_system = (info LogNoHistorical example_system, None)"
  using train_empty_propagates
    [of example_sklearn ValueError untrained example_system example_env]
  by (simp add: example_sklearn_def example_system_def init_db_def)

text \<open>
  C9, as the claim states it, fails: with a library whose split refuses the empty table
  with \<open>ValueError\<close>, \<open>train\<close> on the empty table raises \<open>ValueError\<close>, not
  \<open>InsufficientDataError\<close>.
\<close>

theorem train_empty_counterexample:
  "train example_sklearn untrained [] [] = (untrained, Some ValueError) \<and>
   snd (train example_sklearn untrained [] []) \<noteq> Some InsufficientDataError"
  by (simp add: train_def example_sklearn_def)

end
